theory Spec2Isabelle
  imports Complex_Main "HOL-Library.Word"
begin

section \<open>Python values, errors and string operations\<close>

text \<open>
  The script \<open>main.py\<close> raises no exception of its own; every failure is an exception of a
  built-in operation (a dictionary or list lookup, \<open>int\<close>, \<open>float\<close>) or of a library call.
  An exception is the \<open>Inl\<close> branch of a sum; \<open>bnd\<close> runs the next statement only when the
  previous one returned.
\<close>

datatype error = KeyError | IndexError | ValueError | TypeError

definition bnd :: "error + 'a \<Rightarrow> ('a \<Rightarrow> error + 'b) \<Rightarrow> error + 'b" where
  "bnd m f = (case m of Inl e \<Rightarrow> Inl e | Inr v \<Rightarrow> f v)"

text \<open>\<open>s.lstrip(chars)\<close>, \<open>s.endswith(suffix)\<close> and \<open>str(n)\<close> of an integer.\<close>

definition lstrip :: "string \<Rightarrow> string \<Rightarrow> string" where
  "lstrip chars s = dropWhile (\<lambda>c. c \<in> set chars) s"


definition digit_char :: "nat \<Rightarrow> char" where
  "digit_char d = ''0123456789'' ! d"

fun str_nat :: "nat \<Rightarrow> string" where
  "str_nat n = (if n < 10 then [digit_char n] else str_nat (n div 10) @ [digit_char (n mod 10)])"

declare str_nat.simps [simp del]

definition str_int :: "int \<Rightarrow> string" where
  "str_int i = (if i < 0 then CHR ''-'' # str_nat (nat (- i)) else str_nat (nat i))"

text \<open>
  \<open>int(s, 16)\<close> on a string of hexadecimal digits, and \<open>int(c)\<close> on one character. An empty
  string or a character that is no digit is a \<open>ValueError\<close>. (Python also accepts a sign and
  surrounding blanks; a colour or a file name with those is outside what is modelled here.)
\<close>

definition hex_value :: "char \<Rightarrow> int option" where
  "hex_value c =
     (let n = of_char c :: nat in
      if 48 \<le> n \<and> n \<le> 57 then Some (int n - 48)
      else if 65 \<le> n \<and> n \<le> 70 then Some (int n - 55)
      else if 97 \<le> n \<and> n \<le> 102 then Some (int n - 87)
      else None)"

definition is_hex :: "char \<Rightarrow> bool" where
  "is_hex c = (hex_value c \<noteq> None)"

definition int16 :: "string \<Rightarrow> error + int" where
  "int16 s =
     (if s = [] \<or> \<not> list_all is_hex s then Inl ValueError
      else Inr (foldl (\<lambda>acc c. 16 * acc + the (hex_value c)) 0 s))"



definition path_join :: "string \<Rightarrow> string \<Rightarrow> string" where
  "path_join a b =
     (if b \<noteq> [] \<and> hd b = CHR ''/'' then b
      else if a = [] \<or> last a = CHR ''/'' then a @ b
      else a @ ''/'' @ b)"





section \<open>The collaborators: numpy, scikit-image, the container file\<close>

text \<open>
  The element types a decoded plane may have. A Python \<open>float\<close> is modelled by a real
  number: the script compares the display values with 0 and 1 and multiplies them by 255
  or 65535, and the values the properties below name (0, 1/2, 1) are exact in both.
\<close>

datatype np_dtype = UInt8 | UInt16 | Int32 | Float32 | Float64

text \<open>\<open>int(np.round(x))\<close>: numpy rounds a half to the even neighbour.\<close>

definition np_round :: "real \<Rightarrow> int" where
  "np_round x =
     (let f = \<lfloor>x\<rfloor>; d = x - of_int f in
      if d < 1 / 2 then f
      else if 1 / 2 < d then f + 1
      else if even f then f else f + 1)"

text \<open>
  The image-processing calls and \<open>float\<close> are not part of the script; the export is
  parametric in them. \<open>'img\<close> is the type of a pixel plane, \<open>img_dtype\<close> reads
  \<open>image.dtype\<close>, and each call may raise.
\<close>

record 'img env =
  pyfloat :: "string \<Rightarrow> error + real"
  img_dtype :: "'img \<Rightarrow> np_dtype"
  rescale_intensity :: "'img \<Rightarrow> real \<times> real \<Rightarrow> error + 'img"
  adjust_gamma :: "'img \<Rightarrow> real \<Rightarrow> error + 'img"
  img_as_ubyte :: "'img \<Rightarrow> error + 'img"
  img_as_uint :: "'img \<Rightarrow> error + 'img"

text \<open>
  One \<open>Channel\<close> element of the parsed metadata is a dictionary from field names to their
  text. An opened container gives its element type, the channel list and the planes.
\<close>

type_synonym channel_metadata = "string \<rightharpoonup> string"


text \<open>A colormap is three rows of 256 bytes; a written file is what \<open>imwrite\<close> received.\<close>

type_synonym lut = "8 word list list"

record 'img tif_file =
  path :: string
  pixels :: 'img
  colormap :: "lut option"

text \<open>
  Modelled from the spec: \<open>np.linspace(0, stop, dtype=np.uint8, num=256)\<close> is numpy's and
  not part of the repository. Section 4.2 describes each row as a linear ramp from 0 to
  the colour component across 256 steps: entry \<open>i\<close> is \<open>i * stop / 255\<close>, and the fraction
  is dropped when the value is stored as a byte.
\<close>

definition linspace_uint8 :: "int \<Rightarrow> 8 word list" where
  "linspace_uint8 stop = map (\<lambda>i. word_of_int ((int i * stop) div 255)) [0..<256]"

text \<open>
  Modelled from the spec: \<open>rescale_intensity\<close> is scikit-image's and not part of the
  repository. Section 4.1, for a plane of unsigned integers: values at or below the lower bound map
  to 0, values at or above the upper bound map to the dtype's maximum, values between are
  rescaled linearly, and the fraction is dropped when the value is stored. (Equal bounds,
  which the spec does not cover, leave every pixel at that bound, clipped to the dtype's
  range.)
\<close>

definition dtype_max :: "'a::len word \<Rightarrow> real" where
  "dtype_max v = 2 ^ LENGTH('a) - 1"

definition rescale_pixel :: "real \<Rightarrow> real \<Rightarrow> 'a::len word \<Rightarrow> 'a word" where
  "rescale_pixel imin imax v =
     (let x = min (max (real (unat v)) imin) imax in
      if imin \<noteq> imax then word_of_int \<lfloor>(x - imin) / (imax - imin) * dtype_max v\<rfloor>
      else word_of_int \<lfloor>min (max x 0) (dtype_max v)\<rfloor>)"

definition rescale_intensity_uint ::
  "'a::len word list list \<Rightarrow> real \<times> real \<Rightarrow> 'a word list list" where
  "rescale_intensity_uint img in_range =
     map (map (rescale_pixel (fst in_range) (snd in_range))) img"

text \<open>
  Modelled from the spec: \<open>adjust_gamma\<close> is scikit-image's and not part of the
  repository. Section 4.1: the output is the input raised to the power gamma in the
  normalized domain.
\<close>

definition gamma_pixel :: "real \<Rightarrow> 'a::len word \<Rightarrow> 'a word" where
  "gamma_pixel gamma v =
     word_of_int \<lfloor>(real (unat v) / dtype_max v) powr gamma * dtype_max v\<rfloor>"

text \<open>
  Modelled from the spec: \<open>img_as_ubyte\<close> and \<open>img_as_uint\<close> are scikit-image's and not
  part of the repository. Section 4.1 names them the standard intensity-range conversion
  to 8-bit or 16-bit unsigned: an 8-bit value \<open>v\<close> widens to \<open>257 * v\<close>, a 16-bit value
  narrows to its high byte, and a plane that has the depth already is unchanged.

  \<open>uint_env\<close> collects the collaborators on planes of 8-bit and 16-bit unsigned pixels,
  the two depths the script names; a plane is a list of rows. Its \<open>float_text\<close> reads an
  unsigned decimal numeral such as \<open>0.5\<close>; Python's \<open>float\<close> accepts further forms (a
  sign, an exponent), which are outside what is modelled here.
\<close>

datatype plane = Plane8 "8 word list list" | Plane16 "16 word list list"

definition is_digit :: "char \<Rightarrow> bool" where
  "is_digit c = (48 \<le> (of_char c :: nat) \<and> (of_char c :: nat) \<le> 57)"

definition digits_value :: "string \<Rightarrow> nat" where
  "digits_value s = foldl (\<lambda>acc c. 10 * acc + (of_char c - 48)) 0 s"

definition float_text :: "string \<Rightarrow> error + real" where
  "float_text s =
     (let ip = takeWhile is_digit s; rest = dropWhile is_digit s in
      if rest = [] then (if ip = [] then Inl ValueError else Inr (real (digits_value ip)))
      else if hd rest = CHR ''.'' \<and> list_all is_digit (tl rest) \<and> (ip \<noteq> [] \<or> tl rest \<noteq> [])
      then Inr (real (digits_value ip) + real (digits_value (tl rest)) / 10 ^ length (tl rest))
      else Inl ValueError)"

fun plane_dtype :: "plane \<Rightarrow> np_dtype" where
  "plane_dtype (Plane8 p) = UInt8"
| "plane_dtype (Plane16 p) = UInt16"

fun plane_rescale :: "plane \<Rightarrow> real \<times> real \<Rightarrow> error + plane" where
  "plane_rescale (Plane8 p) in_range = Inr (Plane8 (rescale_intensity_uint p in_range))"
| "plane_rescale (Plane16 p) in_range = Inr (Plane16 (rescale_intensity_uint p in_range))"

fun plane_gamma :: "plane \<Rightarrow> real \<Rightarrow> error + plane" where
  "plane_gamma (Plane8 p) gamma = Inr (Plane8 (map (map (gamma_pixel gamma)) p))"
| "plane_gamma (Plane16 p) gamma = Inr (Plane16 (map (map (gamma_pixel gamma)) p))"

fun plane_as_ubyte :: "plane \<Rightarrow> error + plane" where
  "plane_as_ubyte (Plane8 p) = Inr (Plane8 p)"
| "plane_as_ubyte (Plane16 p) = Inr (Plane8 (map (map (\<lambda>v. ucast (drop_bit 8 v))) p))"

fun plane_as_uint :: "plane \<Rightarrow> error + plane" where
  "plane_as_uint (Plane8 p) = Inr (Plane16 (map (map (\<lambda>v. 257 * ucast v)) p))"
| "plane_as_uint (Plane16 p) = Inr (Plane16 p)"

definition uint_env :: "plane env" where
  "uint_env =
     \<lparr>pyfloat = float_text, img_dtype = plane_dtype, rescale_intensity = plane_rescale,
      adjust_gamma = plane_gamma, img_as_ubyte = plane_as_ubyte, img_as_uint = plane_as_uint\<rparr>"

section \<open>The script\<close>

definition SHORTNAME_MAPPING :: "string \<rightharpoonup> int" where
  "SHORTNAME_MAPPING = map_of
     [(''AF350'', 1), (''AF405'', 2), (''AF430'', 3), (''AF480'', 4), (''AF546'', 5),
      (''AF594'', 6), (''AF647'', 7), (''PCP55'', 8), (''AF700'', 9), (''I800r'', 10),
      (''PhaCo'', 11)]"

text \<open>\<open>hex_to_rgb\<close>: the three slices \<open>hex[0:2]\<close>, \<open>hex[2:4]\<close>, \<open>hex[4:6]\<close>, read in order.\<close>

definition hex_to_rgb :: "string \<Rightarrow> error + int \<times> int \<times> int" where
  "hex_to_rgb hex =
     bnd (int16 (take 2 hex)) (\<lambda>r.
     bnd (int16 (take 2 (drop 2 hex))) (\<lambda>g.
     bnd (int16 (take 2 (drop 4 hex))) (\<lambda>b.
     Inr (r, g, b))))"

subsection \<open>The arguments\<close>


definition tif_name :: "string \<Rightarrow> int \<Rightarrow> string" where
  "tif_name base channel_number = base @ ''C'' @ str_int channel_number @ ''.tif''"

text \<open>
  The value of \<open>dtype\<close> after lines 53 to 58: the container's \<open>np.dtype\<close>, one of the two
  numpy scalar types, or the argument string left as it came. \<open>dtype == np.uint8\<close> holds
  for the scalar type itself and for the \<open>np.dtype\<close> of 8-bit unsigned data; a string
  never equals a numpy type.
\<close>

datatype dtype_value = NpDtype np_dtype | NpUint8 | NpUint16 | Str string


definition eq_np_uint8 :: "dtype_value \<Rightarrow> bool" where
  "eq_np_uint8 d = (d = NpUint8 \<or> d = NpDtype UInt8)"

definition eq_np_uint16 :: "dtype_value \<Rightarrow> bool" where
  "eq_np_uint16 d = (d = NpUint16 \<or> d = NpDtype UInt16)"

subsection \<open>One channel\<close>

text \<open>\<open>float(channel_metadata.get(key, default))\<close>: a missing field is the default.\<close>

definition get_float :: "'img env \<Rightarrow> channel_metadata \<Rightarrow> string \<Rightarrow> real \<Rightarrow> error + real" where
  "get_float E channel_metadata key dflt =
     (case channel_metadata key of None \<Rightarrow> Inr dflt | Some s \<Rightarrow> pyfloat E s)"

text \<open>Lines 81 to 86: the bounds handed to \<open>rescale_intensity\<close>.\<close>

definition display_range :: "np_dtype \<Rightarrow> real \<Rightarrow> real \<Rightarrow> real \<times> real" where
  "display_range dt display_min display_max =
     (if dt = UInt8 then
        (of_int (np_round (display_min * 255)), of_int (np_round (display_max * 255)))
      else if dt = UInt16 then
        (of_int (np_round (display_min * 65535)), of_int (np_round (display_max * 65535)))
      else (display_min, display_max))"

definition rescale_step :: "'img env \<Rightarrow> 'img \<Rightarrow> real \<Rightarrow> real \<Rightarrow> error + 'img" where
  "rescale_step E img display_min display_max =
     (if display_min \<noteq> 0 \<or> display_max \<noteq> 1 then
        rescale_intensity E img (display_range (img_dtype E img) display_min display_max)
      else Inr img)"

definition gamma_step :: "'img env \<Rightarrow> 'img \<Rightarrow> real \<Rightarrow> error + 'img" where
  "gamma_step E img gamma = (if gamma \<noteq> 1 then adjust_gamma E img gamma else Inr img)"

definition set_dtype :: "'img env \<Rightarrow> dtype_value \<Rightarrow> 'img \<Rightarrow> error + 'img" where
  "set_dtype E dtype img =
     (if eq_np_uint8 dtype then img_as_ubyte E img
      else if eq_np_uint16 dtype then img_as_uint E img
      else Inr img)"

definition create_colormap :: "dtype_value \<Rightarrow> channel_metadata \<Rightarrow> error + lut option" where
  "create_colormap dtype channel_metadata =
     (if eq_np_uint8 dtype then
        bnd (hex_to_rgb (drop 2 (lstrip ''#''
               (case channel_metadata ''Color'' of None \<Rightarrow> ''#FFFFFFFF'' | Some c \<Rightarrow> c))))
          (\<lambda>(r, g, b). Inr (Some [linspace_uint8 r, linspace_uint8 g, linspace_uint8 b]))
      else Inr None)"

definition channel_number :: "channel_metadata \<Rightarrow> error + int" where
  "channel_number channel_metadata =
     (case channel_metadata ''ShortName'' of
        None \<Rightarrow> Inl KeyError
      | Some short_name \<Rightarrow>
          (case SHORTNAME_MAPPING short_name of None \<Rightarrow> Inl KeyError | Some n \<Rightarrow> Inr n))"

text \<open>
  The pixel transform of lines 73 to 98, and the whole loop body (lines 69 to 115), which
  ends in the one \<open>imwrite\<close> of the channel.
\<close>

definition transform :: "'img env \<Rightarrow> dtype_value \<Rightarrow> 'img \<Rightarrow> channel_metadata \<Rightarrow> error + 'img" where
  "transform E dtype img channel_metadata =
     bnd (get_float E channel_metadata ''Low'' 0) (\<lambda>display_min.
     bnd (get_float E channel_metadata ''High'' 1) (\<lambda>display_max.
     bnd (get_float E channel_metadata ''Gamma'' 1) (\<lambda>gamma.
     bnd (rescale_step E img display_min display_max) (\<lambda>img.
     bnd (gamma_step E img gamma) (\<lambda>img.
     set_dtype E dtype img)))))"

definition process_channel ::
  "'img env \<Rightarrow> dtype_value \<Rightarrow> string \<Rightarrow> string \<Rightarrow> 'img \<Rightarrow> channel_metadata
     \<Rightarrow> error + 'img tif_file" where
  "process_channel E dtype output_dir base img channel_metadata =
     bnd (transform E dtype img channel_metadata) (\<lambda>img.
     bnd (create_colormap dtype channel_metadata) (\<lambda>cmap.
     bnd (channel_number channel_metadata) (\<lambda>n.
     Inr \<lparr>path = path_join output_dir (tif_name base n), pixels = img, colormap = cmap\<rparr>)))"

subsection \<open>The channel loop and the batch loop\<close>





section \<open>Properties\<close>

subsection \<open>Auxiliary facts\<close>

lemma bnd_Inl [simp]: "bnd (Inl e) f = Inl e"
  by (simp add: bnd_def)

lemma bnd_Inr [simp]: "bnd (Inr v) f = f v"
  by (simp add: bnd_def)

lemma bnd_eq_Inr: "bnd m f = Inr y \<longleftrightarrow> (\<exists>v. m = Inr v \<and> f v = Inr y)"
  by (cases m) simp_all

lemma transform_defaults:
  assumes "get_float E cm ''Low'' 0 = Inr 0" and "get_float E cm ''High'' 1 = Inr 1"
    and "get_float E cm ''Gamma'' 1 = Inr 1"
  shows "transform E dtype img cm = set_dtype E dtype img"
  using assms by (simp add: transform_def rescale_step_def gamma_step_def)

lemma process_channel_pixels:
  "process_channel E dtype dir base img cm = Inr f \<Longrightarrow>
     transform E dtype img cm = Inr (pixels f)"
  by (auto simp: process_channel_def bnd_eq_Inr)





lemma np_round_range:
  assumes "0 \<le> x" and "x \<le> of_int m"
  shows "0 \<le> np_round x \<and> np_round x \<le> m"
proof -
  have f0: "0 \<le> \<lfloor>x\<rfloor>" using assms(1) by simp
  have fm: "\<lfloor>x\<rfloor> \<le> m" using assms(2) by (simp add: floor_le_iff) 
  have "np_round x \<le> m"
  proof (cases "\<lfloor>x\<rfloor> = m")
    case True
    then have "x - of_int \<lfloor>x\<rfloor> \<le> 0" using assms(2) by simp
    then show ?thesis using True by (simp add: np_round_def Let_def)
  next
    case False
    with fm have "\<lfloor>x\<rfloor> + 1 \<le> m" by simp
    then show ?thesis using fm by (simp add: np_round_def Let_def)
  qed
  moreover have "0 \<le> np_round x" using f0 by (simp add: np_round_def Let_def)
  ultimately show ?thesis by simp
qed

























lemma linspace_length: "length (linspace_uint8 stop) = 256"
  by (simp add: linspace_uint8_def)

lemma linspace_nth:
  "i < 256 \<Longrightarrow> linspace_uint8 stop ! i = word_of_int ((int i * stop) div 255)"
  by (simp add: linspace_uint8_def)

lemma linspace_first: "linspace_uint8 stop ! 0 = 0"
  by (simp add: linspace_nth)

lemma linspace_last:
  assumes "0 \<le> stop" and "stop \<le> 255"
  shows "uint (linspace_uint8 stop ! 255) = stop"
proof -
  have "linspace_uint8 stop ! 255 = word_of_int stop" by (simp add: linspace_nth)
  then show ?thesis using assms by (simp add: uint_word_of_int take_bit_int_eq_self)
qed

lemma ramp_value_mono:
  fixes stop :: int
  assumes "0 \<le> stop" and "i \<le> j"
  shows "(int i * stop) div 255 \<le> (int j * stop) div 255"
proof -
  have "int i * stop \<le> int j * stop"
    using assms by (simp add: mult_right_mono)
  then show ?thesis by (simp add: zdiv_mono1)
qed

lemma ramp_value_range:
  fixes stop :: int
  assumes "0 \<le> stop" and "stop \<le> 255" and "j < 256"
  shows "0 \<le> (int j * stop) div 255 \<and> (int j * stop) div 255 < 256"
proof -
  have "(int j * stop) div 255 \<le> (int 255 * stop) div 255"
    using assms(1,3) by (intro ramp_value_mono) simp_all
  then have "(int j * stop) div 255 \<le> stop" by simp
  moreover have "0 \<le> (int j * stop) div 255"
    using assms(1) by (simp add: pos_imp_zdiv_nonneg_iff)
  ultimately show ?thesis using assms(2) by simp
qed

lemma linspace_sorted:
  assumes "0 \<le> stop" and "stop \<le> 255"
  shows "sorted (linspace_uint8 stop)"
proof -
  have "linspace_uint8 stop ! i \<le> linspace_uint8 stop ! j"
    if "i \<le> j" and "j < 256" for i j
  proof -
    have ri: "0 \<le> (int i * stop) div 255 \<and> (int i * stop) div 255 < 256"
      using assms that by (intro ramp_value_range) simp_all
    have rj: "0 \<le> (int j * stop) div 255 \<and> (int j * stop) div 255 < 256"
      using assms that by (intro ramp_value_range) simp_all
    have "(int i * stop) div 255 \<le> (int j * stop) div 255"
      using assms(1) that(1) by (rule ramp_value_mono)
    then have "(word_of_int ((int i * stop) div 255) :: 8 word)
               \<le> word_of_int ((int j * stop) div 255)"
      using ri rj by (simp add: word_of_int_less_eq_iff take_bit_int_eq_self)
    then show ?thesis using that by (simp add: linspace_nth)
  qed
  then show ?thesis by (simp add: sorted_iff_nth_mono linspace_length)
qed

lemma hex_value_range: "hex_value c = Some n \<Longrightarrow> 0 \<le> n \<and> n \<le> 15"
  by (auto simp: hex_value_def Let_def split: if_splits)

lemma is_hex_not_hash: "is_hex c \<Longrightarrow> c \<noteq> CHR ''#''"
  by (auto simp: is_hex_def hex_value_def)

lemma int16_pair:
  assumes "is_hex x" and "is_hex y"
  shows "int16 [x, y] = Inr (16 * the (hex_value x) + the (hex_value y))"
  using assms by (simp add: int16_def)

lemma hex_pair_range:
  assumes "is_hex x" and "is_hex y"
  shows "0 \<le> 16 * the (hex_value x) + the (hex_value y)
         \<and> 16 * the (hex_value x) + the (hex_value y) \<le> 255"
proof -
  from assms obtain a b where "hex_value x = Some a" "hex_value y = Some b"
    by (auto simp: is_hex_def)
  then show ?thesis using hex_value_range [of x a] hex_value_range [of y b] by simp
qed

lemma hex_to_rgb_six:
  assumes "list_all is_hex [r0, r1, g0, g1, b0, b1]"
  shows "hex_to_rgb [r0, r1, g0, g1, b0, b1]
         = Inr (16 * the (hex_value r0) + the (hex_value r1),
                16 * the (hex_value g0) + the (hex_value g1),
                16 * the (hex_value b0) + the (hex_value b1))"
  using assms by (simp add: hex_to_rgb_def int16_pair)

lemma lstrip_hash:
  assumes "is_hex c"
  shows "lstrip ''#'' (c # s) = c # s" and "lstrip ''#'' (CHR ''#'' # c # s) = c # s"
  using is_hex_not_hash [OF assms] by (simp_all add: lstrip_def)

lemma length_8:
  assumes "length (s :: 'a list) = 8"
  shows "\<exists>a b c d e f g h. s = [a, b, c, d, e, f, g, h]"
  using assms by (auto simp: eval_nat_numeral length_Suc_conv)

subsection \<open>The identity transform\<close>

text \<open>
  C1. When the display range read for a channel is (0, 1) and its gamma is 1, the rescale
  and gamma steps are skipped: the transform of the plane is the dtype conversion alone
  (\<open>img_as_ubyte\<close> for 8-bit output, \<open>img_as_uint\<close> for 16-bit output, nothing otherwise),
  and the plane handed to \<open>imwrite\<close> is that conversion of the input plane.
\<close>

theorem identity_transform_is_dtype_conversion:
  assumes "get_float E cm ''Low'' 0 = Inr 0" and "get_float E cm ''High'' 1 = Inr 1"
    and "get_float E cm ''Gamma'' 1 = Inr 1"
  shows "transform E dtype img cm =
           (if eq_np_uint8 dtype then img_as_ubyte E img
            else if eq_np_uint16 dtype then img_as_uint E img
            else Inr img)
         \<and> (\<forall>f. process_channel E dtype dir base img cm = Inr f \<longrightarrow>
               set_dtype E dtype img = Inr (pixels f))"
proof -
  have t: "transform E dtype img cm = set_dtype E dtype img"
    using assms by (rule transform_defaults)
  have "\<forall>f. process_channel E dtype dir base img cm = Inr f \<longrightarrow>
               set_dtype E dtype img = Inr (pixels f)"
    using process_channel_pixels [of E dtype dir base img cm] t by auto
  with t show ?thesis by (simp add: set_dtype_def)
qed

theorem identity_transform_witness:
  "transform uint_env NpUint16 (Plane8 [[0, 100, 255]])
      [''Low'' \<mapsto> ''0'', ''High'' \<mapsto> ''1'', ''ShortName'' \<mapsto> ''AF647'']
     = Inr (Plane16 [[0, 25700, 65535]])"
  using identity_transform_is_dtype_conversion
    [of uint_env "[''Low'' \<mapsto> ''0'', ''High'' \<mapsto> ''1'', ''ShortName'' \<mapsto> ''AF647'']"
       NpUint16 "Plane8 [[0, 100, 255]]"]
  by (simp add: get_float_def uint_env_def float_text_def is_digit_def digits_value_def
        eq_np_uint8_def eq_np_uint16_def)

subsection \<open>Colormap only for 8-bit output\<close>



subsection \<open>Missing calibration fields\<close>

text \<open>
  C8. A channel record without a Low, High or Gamma field reads the default 0, 1 or 1 for
  that field, without an error; when all three are missing, neither the rescale branch nor
  the gamma branch runs, and the transform is the dtype conversion alone.
\<close>

theorem missing_fields_default:
  "(cm ''Low'' = None \<longrightarrow> get_float E cm ''Low'' 0 = Inr 0)
   \<and> (cm ''High'' = None \<longrightarrow> get_float E cm ''High'' 1 = Inr 1)
   \<and> (cm ''Gamma'' = None \<longrightarrow> get_float E cm ''Gamma'' 1 = Inr 1)
   \<and> (cm ''Low'' = None \<and> cm ''High'' = None \<and> cm ''Gamma'' = None \<longrightarrow>
        rescale_step E img 0 1 = Inr img \<and> gamma_step E img 1 = Inr img
        \<and> transform E dtype img cm = set_dtype E dtype img)"
  by (simp add: get_float_def transform_def rescale_step_def gamma_step_def)

theorem missing_fields_default_witness:
  "get_float uint_env [''ShortName'' \<mapsto> ''AF647''] ''Low'' 0 = Inr 0
   \<and> get_float uint_env [''ShortName'' \<mapsto> ''AF647''] ''High'' 1 = Inr 1
   \<and> get_float uint_env [''ShortName'' \<mapsto> ''AF647''] ''Gamma'' 1 = Inr 1
   \<and> transform uint_env (NpDtype UInt8) (Plane8 [[7, 200]]) [''ShortName'' \<mapsto> ''AF647'']
       = Inr (Plane8 [[7, 200]])"
  using missing_fields_default
    [of "[''ShortName'' \<mapsto> ''AF647'']" uint_env "Plane8 [[7, 200]]" "NpDtype UInt8"]
  by (simp add: set_dtype_def eq_np_uint8_def uint_env_def)

subsection \<open>An unrecognised dtype argument\<close>



subsection \<open>File names without a round number\<close>



subsection \<open>File names with a round number\<close>



subsection \<open>The bounds handed to the rescale\<close>

text \<open>
  For a plane that is neither 8-bit nor 16-bit unsigned the display bounds are handed to
  \<open>rescale_intensity\<close> as read: with the range (0.5, 1) on a 32-bit floating-point plane
  (and likewise on a 32-bit integer plane) the lower bound passed is 0.5, not a value of
  an integer range.
\<close>

theorem float_bounds_not_rescaled:
  "display_range Float32 (1 / 2) 1 = (1 / 2, 1)
   \<and> fst (display_range Float32 (1 / 2) 1) \<notin> \<int>
   \<and> display_range Int32 (1 / 2) 1 = (1 / 2, 1)
   \<and> fst (display_range Int32 (1 / 2) 1) \<notin> \<int>"
  by (simp add: display_range_def)

text \<open>
  C3 (amended). Whenever the display range is not exactly (0, 1), the bounds handed to
  \<open>rescale_intensity\<close> are, for an 8-bit plane, the display values times 255 and, for a
  16-bit plane, times 65535, each rounded to an integer (which lies in 0..255 or 0..65535
  for a display value in [0, 1]); for a floating-point plane they are the display values
  themselves.
\<close>

theorem display_bounds_rescaled_uint8_uint16:
  assumes "display_min \<noteq> 0 \<or> display_max \<noteq> 1"
  shows "(img_dtype E img = UInt8 \<longrightarrow>
            rescale_step E img display_min display_max
            = rescale_intensity E img
                (of_int (np_round (display_min * 255)), of_int (np_round (display_max * 255))))
    \<and> (img_dtype E img = UInt16 \<longrightarrow>
            rescale_step E img display_min display_max
            = rescale_intensity E img
                (of_int (np_round (display_min * 65535)), of_int (np_round (display_max * 65535))))
    \<and> (img_dtype E img = Float32 \<or> img_dtype E img = Float64 \<longrightarrow>
            rescale_step E img display_min display_max
            = rescale_intensity E img (display_min, display_max))
    \<and> (\<forall>x. 0 \<le> x \<and> x \<le> 1 \<longrightarrow>
            0 \<le> np_round (x * 255) \<and> np_round (x * 255) \<le> 255
            \<and> 0 \<le> np_round (x * 65535) \<and> np_round (x * 65535) \<le> 65535)"
proof -
  have r: "0 \<le> np_round (x * 255) \<and> np_round (x * 255) \<le> 255
            \<and> 0 \<le> np_round (x * 65535) \<and> np_round (x * 65535) \<le> 65535"
    if "0 \<le> x \<and> x \<le> 1" for x
    using np_round_range [of "x * 255" 255] np_round_range [of "x * 65535" 65535] that
    by simp
  have s: "rescale_step E img display_min display_max
        = rescale_intensity E img (display_range (img_dtype E img) display_min display_max)"
    using assms by (auto simp: rescale_step_def)
  show ?thesis using r by (auto simp: s display_range_def)
qed

theorem display_bounds_witness:
  "rescale_step uint_env (Plane8 [[100, 200]]) (1 / 2) 1
     = rescale_intensity uint_env (Plane8 [[100, 200]]) (128, 255)
   \<and> rescale_step uint_env (Plane16 [[100, 200]]) (1 / 2) 1
     = rescale_intensity uint_env (Plane16 [[100, 200]]) (32768, 65535)"
  using display_bounds_rescaled_uint8_uint16 [of "1 / 2" 1 uint_env "Plane8 [[100, 200]]"]
    display_bounds_rescaled_uint8_uint16 [of "1 / 2" 1 uint_env "Plane16 [[100, 200]]"]
  by (simp add: uint_env_def np_round_def Let_def)

subsection \<open>A short name outside the table\<close>




subsection \<open>The display range (0.5, 1) on an 8-bit plane\<close>



subsection \<open>The colormap of an ARGB colour\<close>

text \<open>
  C4. For a Color of eight hex digits (with or without a leading \<open>#\<close>) and 8-bit output,
  the colormap has three rows of 256 entries; row \<open>k\<close> starts at 0, ends at exactly the
  R, G or B component that digits \<open>2k+2\<close> and \<open>2k+3\<close> of the string spell (the two alpha
  digits are not read), and never decreases in between.
\<close>

theorem colormap_ramps:
  assumes "length s = 8" and "list_all is_hex s"
    and "cm ''Color'' = Some s \<or> cm ''Color'' = Some (CHR ''#'' # s)"
    and "eq_np_uint8 dtype"
  shows "\<exists>ramp. create_colormap dtype cm = Inr (Some ramp) \<and> length ramp = 3
           \<and> (\<forall>k<3. length (ramp ! k) = 256
                 \<and> ramp ! k ! 0 = 0
                 \<and> uint (ramp ! k ! 255)
                     = 16 * the (hex_value (s ! (2 * k + 2))) + the (hex_value (s ! (2 * k + 3)))
                 \<and> sorted (ramp ! k))"
proof -
  from assms(1) obtain a0 a1 r0 r1 g0 g1 b0 b1 where s: "s = [a0, a1, r0, r1, g0, g1, b0, b1]"
    using length_8 by blast
  let ?r = "16 * the (hex_value r0) + the (hex_value r1)"
  let ?g = "16 * the (hex_value g0) + the (hex_value g1)"
  let ?b = "16 * the (hex_value b0) + the (hex_value b1)"
  have hx: "is_hex a0" "is_hex r0" "is_hex r1" "is_hex g0" "is_hex g1" "is_hex b0" "is_hex b1"
    using assms(2) by (simp_all add: s)
  have rr: "0 \<le> ?r \<and> ?r \<le> 255" using hx by (intro hex_pair_range)
  have rg: "0 \<le> ?g \<and> ?g \<le> 255" using hx by (intro hex_pair_range)
  have rb: "0 \<le> ?b \<and> ?b \<le> 255" using hx by (intro hex_pair_range)
  have strip: "drop 2 (lstrip ''#'' (case cm ''Color'' of None \<Rightarrow> ''#FFFFFFFF'' | Some c \<Rightarrow> c))
               = [r0, r1, g0, g1, b0, b1]"
    using assms(3) lstrip_hash [OF hx(1)] by (auto simp: s)
  have rgb: "hex_to_rgb [r0, r1, g0, g1, b0, b1] = Inr (?r, ?g, ?b)"
    using assms(2) by (intro hex_to_rgb_six) (simp add: s)
  have c: "create_colormap dtype cm
           = Inr (Some [linspace_uint8 ?r, linspace_uint8 ?g, linspace_uint8 ?b])"
    using assms(4) by (simp add: create_colormap_def strip rgb)
  have row: "length (linspace_uint8 x) = 256 \<and> linspace_uint8 x ! 0 = 0
             \<and> uint (linspace_uint8 x ! 255) = x \<and> sorted (linspace_uint8 x)"
    if "0 \<le> x \<and> x \<le> 255" for x
    using that linspace_length linspace_first linspace_last linspace_sorted by simp
  have "\<forall>k<3. length ([linspace_uint8 ?r, linspace_uint8 ?g, linspace_uint8 ?b] ! k) = 256
                 \<and> [linspace_uint8 ?r, linspace_uint8 ?g, linspace_uint8 ?b] ! k ! 0 = 0
                 \<and> uint ([linspace_uint8 ?r, linspace_uint8 ?g, linspace_uint8 ?b] ! k ! 255)
                     = 16 * the (hex_value (s ! (2 * k + 2))) + the (hex_value (s ! (2 * k + 3)))
                 \<and> sorted ([linspace_uint8 ?r, linspace_uint8 ?g, linspace_uint8 ?b] ! k)"
    using row [OF rr] row [OF rg] row [OF rb]
    by (simp add: s numeral_3_eq_3 less_Suc_eq)
  with c show ?thesis by simp
qed

theorem colormap_ramps_witness:
  "create_colormap NpUint8 [''Color'' \<mapsto> ''#FFFF8000'']
     = Inr (Some [linspace_uint8 255, linspace_uint8 128, linspace_uint8 0])
   \<and> linspace_uint8 128 ! 0 = 0 \<and> linspace_uint8 128 ! 100 = 50
   \<and> linspace_uint8 128 ! 255 = 128 \<and> sorted (linspace_uint8 128)"
proof -
  have c: "create_colormap NpUint8 [''Color'' \<mapsto> ''#FFFF8000'']
     = Inr (Some [linspace_uint8 255, linspace_uint8 128, linspace_uint8 0])"
    by (simp add: create_colormap_def eq_np_uint8_def lstrip_def hex_to_rgb_def int16_def
          is_hex_def hex_value_def)
  have h: "length ''FFFF8000'' = 8" "list_all is_hex ''FFFF8000''"
    "[''Color'' \<mapsto> ''#FFFF8000''] ''Color'' = Some ''FFFF8000''
     \<or> [''Color'' \<mapsto> ''#FFFF8000''] ''Color'' = Some (CHR ''#'' # ''FFFF8000'')"
    "eq_np_uint8 NpUint8"
    by (simp_all add: is_hex_def hex_value_def eq_np_uint8_def)
  from colormap_ramps [of "''FFFF8000''" "[''Color'' \<mapsto> ''#FFFF8000'']" NpUint8, OF h] obtain ramp where
    r: "create_colormap NpUint8 [''Color'' \<mapsto> ''#FFFF8000''] = Inr (Some ramp)"
    and p: "\<forall>k<3. length (ramp ! k) = 256 \<and> ramp ! k ! 0 = 0
                 \<and> uint (ramp ! k ! 255)
                     = 16 * the (hex_value (''FFFF8000'' ! (2 * k + 2)))
                       + the (hex_value (''FFFF8000'' ! (2 * k + 3)))
                 \<and> sorted (ramp ! k)"
    by blast
  from r c have "ramp = [linspace_uint8 255, linspace_uint8 128, linspace_uint8 0]"
    by simp
  moreover from p have "sorted (ramp ! 1)" by (simp add: numeral_3_eq_3)
  ultimately have "sorted (linspace_uint8 128)" by simp
  then show ?thesis by (simp add: c linspace_nth)
qed

end
